theory Spec2Isabelle
  imports Main "HOL-Library.AList"
begin

section \<open>Values and the host platform\<close>

text \<open>
  The three source files are glue around functions of the host: \<^verbatim>\<open>JSON.parse\<close>,
  \<^verbatim>\<open>JSON.stringify\<close>, \<^verbatim>\<open>String.prototype.trim\<close>, the \<^verbatim>\<open>Worker\<close> constructor and
  the two functions \<^verbatim>\<open>compressToBase64\<close> and \<^verbatim>\<open>decompressFromBase64\<close> of the
  lz-string package. None of them is defined in the repository, so every function of the
  model takes them as a parameter, the record \<open>platform\<close>.

  A parsed JSON value is a tree. The host's number representation is never inspected by
  the code, so it stays a type parameter.
\<close>

datatype 'n json =
    JNull
  | JBool bool
  | JNumber 'n
  | JString string
  | JArray "'n json list"
  | JObject "(string \<times> 'n json) list"

text \<open>The \<^verbatim>\<open>typeof\<close> operator on a parsed value.\<close>

fun typeof :: "'n json \<Rightarrow> string" where
  "typeof JNull = ''object''"
| "typeof (JBool b) = ''boolean''"
| "typeof (JNumber n) = ''number''"
| "typeof (JString s) = ''string''"
| "typeof (JArray xs) = ''object''"
| "typeof (JObject kvs) = ''object''"

text \<open>
  \<open>Worker_global\<close> is what the main thread finds when it looks for the \<^verbatim>\<open>Worker\<close>
  constructor: it is undefined, or it starts a worker whose script runs and answers the
  message, or it starts a worker that raises the \<^verbatim>\<open>error\<close> event instead.
\<close>

datatype worker_global = WorkerUndefined | WorkerRuns | WorkerFaults

record 'n platform =
  JSON_parse :: "string \<Rightarrow> string + 'n json"
    \<comment> \<open>\<open>Inl m\<close>: a SyntaxError with message \<open>m\<close> is thrown\<close>
  JSON_stringify :: "'n json \<Rightarrow> nat \<Rightarrow> string"
    \<comment> \<open>the second argument is \<^verbatim>\<open>space\<close>; \<open>0\<close> when the call passes none\<close>
  compressToBase64 :: "string \<Rightarrow> string"
  decompressFromBase64 :: "string \<Rightarrow> string option"
    \<comment> \<open>\<open>None\<close>: the library returns \<^verbatim>\<open>null\<close>\<close>
  Worker_global :: worker_global
  TextEncoder_length :: "string \<Rightarrow> nat"
    \<comment> \<open>\<^verbatim>\<open>new TextEncoder().encode(str).length\<close>\<close>

text \<open>
  \<^verbatim>\<open>trim\<close> removes white space and line terminators from both ends. A text is a
  \<open>string\<close>, a list of characters with the codes U+0000 to U+00FF. Of the characters
  that ECMAScript's \<^verbatim>\<open>trim\<close> strips, the ones in this range are TAB, LF, VT, FF, CR,
  SPACE and NO-BREAK SPACE (U+00A0).
\<close>

definition isWhiteSpace :: "char \<Rightarrow> bool" where
  "isWhiteSpace c \<longleftrightarrow> of_char c \<in> {9, 10, 11, 12, 13, 32, 160 :: nat}"

definition trim :: "string \<Rightarrow> string" where
  "trim s = rev (dropWhile isWhiteSpace (rev (dropWhile isWhiteSpace s)))"

text \<open>\<^verbatim>\<open>a || b\<close> on strings: the empty string is falsy.\<close>

definition or_else :: "string \<Rightarrow> string \<Rightarrow> string" where
  "or_else a b = (if a = [] then b else a)"

section \<open>The calls a request makes\<close>

text \<open>
  Each function of the pipeline returns, next to its value, the list of calls it made to
  the host, in order. This makes ``is never invoked'' and ``before any parse'' properties
  of the returned list.
\<close>

datatype action = Compress | Decompress

fun action_name :: "action \<Rightarrow> string" where
  "action_name Compress = ''compress''"
| "action_name Decompress = ''decompress''"

datatype event =
    SetTimeout                        \<comment> \<open>\<^verbatim>\<open>setTimeout(..., 0)\<close>\<close>
  | Parse string                      \<comment> \<open>\<^verbatim>\<open>JSON.parse(text)\<close>\<close>
  | Stringify nat                     \<comment> \<open>\<^verbatim>\<open>JSON.stringify(value, null, space)\<close>\<close>
  | Encode string                     \<comment> \<open>\<^verbatim>\<open>LZString.compressToBase64(text)\<close>\<close>
  | Decode string                     \<comment> \<open>\<^verbatim>\<open>LZString.decompressFromBase64(text)\<close>\<close>
  | NewWorker                         \<comment> \<open>\<^verbatim>\<open>new Worker(...)\<close>\<close>
  | PostToWorker string string        \<comment> \<open>\<^verbatim>\<open>worker.postMessage({action, data})\<close>\<close>
  | PostToMain                        \<comment> \<open>the worker's \<^verbatim>\<open>postMessage(...)\<close>\<close>
  | Terminate                         \<comment> \<open>\<^verbatim>\<open>worker.terminate()\<close>\<close>
  | ProcessData action string bool    \<comment> \<open>\<^verbatim>\<open>processDataAsync(action, data, useWorker)\<close>\<close>

text \<open>The calls that belong to the transform itself, on either thread.\<close>

fun is_transform_call :: "event \<Rightarrow> bool" where
  "is_transform_call (Parse s) = True"
| "is_transform_call (Stringify n) = True"
| "is_transform_call (Encode s) = True"
| "is_transform_call (Decode s) = True"
| "is_transform_call e = False"

section \<open>compression.service.ts\<close>

text \<open>How the promise returned by \<^verbatim>\<open>processDataAsync\<close> settles.\<close>

datatype outcome = Resolved string | Rejected string

text \<open>\<^verbatim>\<open>compressJsonSync\<close>: stringify without \<^verbatim>\<open>space\<close>, then encode. It throws nothing.\<close>

definition compressJsonSync :: "'n platform \<Rightarrow> 'n json \<Rightarrow> event list \<times> string" where
  "compressJsonSync P jsonObject =
     (let jsonString = JSON_stringify P jsonObject 0
      in ([Stringify 0, Encode jsonString], compressToBase64 P jsonString))"

text \<open>
  \<^verbatim>\<open>decompressJsonSync\<close>: \<open>Inl m\<close> is a thrown error with message \<open>m\<close>. The guard tests
  \<^verbatim>\<open>null\<close> and \<^verbatim>\<open>undefined\<close> only; any string, the empty one too, goes on to
  \<^verbatim>\<open>JSON.parse\<close>.
\<close>

definition decompressJsonSync :: "'n platform \<Rightarrow> string \<Rightarrow> event list \<times> (string + string)" where
  "decompressJsonSync P compressedString =
     (case decompressFromBase64 P compressedString of
        None \<Rightarrow> ([Decode compressedString], Inl ''Decompression returned no data or failed.'')
      | Some jsonString \<Rightarrow>
          (case JSON_parse P jsonString of
             Inl m \<Rightarrow> ([Decode compressedString, Parse jsonString], Inl m)
           | Inr v \<Rightarrow> ([Decode compressedString, Parse jsonString, Stringify 2],
                        Inr (JSON_stringify P v 2))))"

text \<open>\<^verbatim>\<open>calculateByteSize\<close>.\<close>

definition calculateByteSize :: "'n platform \<Rightarrow> string \<Rightarrow> nat" where
  "calculateByteSize P str = (if str = [] then 0 else TextEncoder_length P str)"

section \<open>compression.worker.ts\<close>

text \<open>
  The message the worker receives carries the action as a string; the response is
  \<^verbatim>\<open>{success: true, result}\<close> or \<^verbatim>\<open>{success: false, error}\<close>.
\<close>

record worker_message =
  wm_action :: string
  wm_data :: string

datatype worker_response = Success string | Failure string

definition worker_listener :: "'n platform \<Rightarrow> worker_message \<Rightarrow> event list \<times> worker_response" where
  "worker_listener P msg =
     (let originalData = wm_data msg;
          fail = (\<lambda>m. Failure (or_else m ''Worker processing failed.''))
      in
      if wm_action msg = ''compress'' then
        (case JSON_parse P originalData of
           Inl m \<Rightarrow> ([Parse originalData, PostToMain], fail m)
         | Inr jsonObject \<Rightarrow>
             (let jsonString = JSON_stringify P jsonObject 0
              in ([Parse originalData, Stringify 0, Encode jsonString, PostToMain],
                  Success (compressToBase64 P jsonString))))
      else if wm_action msg = ''decompress'' then
        (case decompressFromBase64 P originalData of
           None \<Rightarrow> ([Decode originalData, PostToMain],
                    fail ''Decompression failed: Returned null/undefined.'')
         | Some decompressedString \<Rightarrow>
             (case JSON_parse P decompressedString of
                Inl m \<Rightarrow> ([Decode originalData, Parse decompressedString, PostToMain], fail m)
              | Inr jsonObject \<Rightarrow>
                  ([Decode originalData, Parse decompressedString, Stringify 2, PostToMain],
                   Success (JSON_stringify P jsonObject 2))))
      else ([PostToMain], fail ''Invalid action provided.''))"

section \<open>The dispatcher\<close>

definition processDataAsync ::
  "'n platform \<Rightarrow> action \<Rightarrow> string \<Rightarrow> bool \<Rightarrow> event list \<times> outcome" where
  "processDataAsync P act data useWorker =
     (if \<not> useWorker then
        (if act = Compress then
           (case JSON_parse P data of
              Inl m \<Rightarrow> ([SetTimeout, Parse data],
                        Rejected (or_else m ''Synchronous processing failed.''))
            | Inr jsonObject \<Rightarrow>
                (case compressJsonSync P jsonObject of
                   (es, r) \<Rightarrow> ([SetTimeout, Parse data] @ es, Resolved r)))
         else
           (case decompressJsonSync P data of
              (es, Inl m) \<Rightarrow> (SetTimeout # es,
                              Rejected (or_else m ''Synchronous processing failed.''))
            | (es, Inr r) \<Rightarrow> (SetTimeout # es, Resolved r)))
      else
        (case Worker_global P of
           WorkerUndefined \<Rightarrow>
             ([], Rejected ''Web Workers are not supported in this environment.'')
         | WorkerFaults \<Rightarrow>
             ([NewWorker, PostToWorker (action_name act) data, Terminate],
              Rejected ''Worker error: Could not process data.'')
         | WorkerRuns \<Rightarrow>
             (case worker_listener P \<lparr>wm_action = action_name act, wm_data = data\<rparr> of
                (es, Success result) \<Rightarrow>
                  ([NewWorker, PostToWorker (action_name act) data] @ es @ [Terminate],
                   Resolved result)
              | (es, Failure err) \<Rightarrow>
                  ([NewWorker, PostToWorker (action_name act) data] @ es @ [Terminate],
                   Rejected (or_else err ''Worker execution failed.'')))))"

section \<open>The classifier\<close>

datatype data_type = Compressed | Json | Unknown

text \<open>
  \<^verbatim>\<open>analyzeData\<close>. The first \<^verbatim>\<open>try\<close> returns only for an object that is not
  \<^verbatim>\<open>null\<close>; a scalar and a parse error both fall through to the second \<^verbatim>\<open>try\<close>, where
  \<^verbatim>\<open>if (decompressed)\<close> is false for \<^verbatim>\<open>null\<close> and for the empty string.
\<close>

definition analyzeData :: "'n platform \<Rightarrow> string \<Rightarrow> data_type" where
  "analyzeData P input =
     (let trimmedInput = trim input in
      if trimmedInput = [] then Unknown
      else
        (case (case JSON_parse P trimmedInput of
                 Inr parsed \<Rightarrow>
                   if typeof parsed = ''object'' \<and> parsed \<noteq> JNull then Some Json else None
               | Inl m \<Rightarrow> None) of
           Some r \<Rightarrow> r
         | None \<Rightarrow>
             (case decompressFromBase64 P trimmedInput of
                None \<Rightarrow> Unknown
              | Some decompressed \<Rightarrow>
                  if decompressed \<noteq> [] then
                    (case JSON_parse P decompressed of
                       Inr v \<Rightarrow> Compressed
                     | Inl m \<Rightarrow> Unknown)
                  else Unknown)))"

section \<open>app.component.ts\<close>

text \<open>
  The fields of the component that the input and action handlers read or write
  (\<^verbatim>\<open>isDragging\<close> belongs to the drag-and-drop handlers only).
\<close>

record component =
  dataInput :: string
  dataType :: data_type
  isLoading :: bool
  useWebWorker :: bool
  resultData :: string
  resultTitle :: string
  statusMessage :: string
  errorMessage :: "string option"
  originalSize :: nat
  resultSize :: nat

definition resetError :: "component \<Rightarrow> component" where
  "resetError s = s\<lparr>errorMessage := None\<rparr>"

definition resetOutput :: "component \<Rightarrow> component" where
  "resetOutput s = resetError (s\<lparr>resultData := [], resultTitle := [], resultSize := 0\<rparr>)"

definition analyzeInput :: "'n platform \<Rightarrow> component \<Rightarrow> component" where
  "analyzeInput P s =
     (let input = trim (dataInput s);
          t = analyzeData P input;
          msg = (if t = Compressed then
                   ''Data recognized as **LZ-Compressed String**. Ready to Decompress.''
                 else if t = Json then
                   ''Data recognized as **Raw JSON Object**. Ready to Compress.''
                 else if input \<noteq> [] then
                   ''Pasted data is not recognized as valid JSON or compressed format.''
                 else ''Paste or drop data to begin.'')
      in s\<lparr>dataType := t, statusMessage := msg, originalSize := calculateByteSize P input\<rparr>)"

definition onDataChange :: "'n platform \<Rightarrow> component \<Rightarrow> component" where
  "onDataChange P s = analyzeInput P (resetOutput s)"

text \<open>
  \<^verbatim>\<open>handleAction\<close>, as the state it leaves once the awaited promise has settled, with the
  calls made on the way. \<open>duration\<close> is the elapsed time that the two readings of
  \<^verbatim>\<open>performance.now()\<close> give, already formatted.

  In the \<^verbatim>\<open>catch\<close> branch \<^verbatim>\<open>e\<close> is what the promise was rejected with. The dispatcher
  rejects with a string in every case, and a string has no \<^verbatim>\<open>message\<close> property, so
  \<^verbatim>\<open>e.message || '...'\<close> is the fixed text. \<^verbatim>\<open>resetOutput()\<close> then runs
  \<^verbatim>\<open>resetError()\<close>, which sets the message back to \<^verbatim>\<open>null\<close>.
\<close>

definition message_of_string :: "string \<Rightarrow> string" where
  "message_of_string e = []"
    \<comment> \<open>\<^verbatim>\<open>e.message\<close> for a string \<^verbatim>\<open>e\<close>: undefined, hence falsy\<close>

definition handleAction :: "'n platform \<Rightarrow> string \<Rightarrow> component \<Rightarrow> event list \<times> component" where
  "handleAction P duration s =
     (if length (trim (dataInput s)) = 0 then
        ([], s\<lparr>errorMessage := Some ''Input cannot be empty.''\<rparr>)
      else
        (let s1 = (resetError s)\<lparr>isLoading := True, resultData := []\<rparr>;
             act = (if dataType s1 = Json then Compress else Decompress);
             originalInput = dataInput s1
         in case processDataAsync P act originalInput (useWebWorker s1) of
              (es, Resolved result) \<Rightarrow>
                (ProcessData act originalInput (useWebWorker s1) # es,
                 s1\<lparr>resultData := result,
                    resultTitle := (if act = Compress then ''Compressed String (Base64)''
                                    else ''Decompressed JSON Object''),
                    resultSize := calculateByteSize P result,
                    statusMessage :=
                      (if act = Compress then ''Compression'' else ''Decompression'')
                      @ '' successful! Time taken: **'' @ duration @ '' ms** (Mode: ''
                      @ (if useWebWorker s1 then ''Worker'' else ''Sync'') @ '').'',
                    isLoading := False\<rparr>)
            | (es, Rejected e) \<Rightarrow>
                (ProcessData act originalInput (useWebWorker s1) # es,
                 (resetOutput
                    (s1\<lparr>errorMessage :=
                          Some (or_else (message_of_string e)
                                  ''An unexpected error occurred during processing.'')\<rparr>))
                 \<lparr>isLoading := False\<rparr>)))"

section \<open>A platform to run the model on\<close>

text \<open>
  To evaluate the model at concrete inputs the parameters need values. \<open>sample_platform\<close>
  supplies them: a JSON reader and writer for the grammar of RFC 8259 with integer numbers
  and without Unicode escapes, and a codec that stands in for lz-string. The theorems
  about the repository's code hold for every platform; this one only shows that their
  hypotheses can be met and what the code computes there.
\<close>

subsection \<open>Reading JSON\<close>

definition is_json_ws :: "char \<Rightarrow> bool" where
  "is_json_ws c \<longleftrightarrow> of_char c \<in> {9, 10, 13, 32 :: nat}"

definition skip_ws :: "string \<Rightarrow> string" where
  "skip_ws = dropWhile is_json_ws"

definition is_digit :: "char \<Rightarrow> bool" where
  "is_digit c \<longleftrightarrow> 48 \<le> (of_char c :: nat) \<and> (of_char c :: nat) \<le> 57"

definition digit_value :: "char \<Rightarrow> int" where
  "digit_value c = int (of_char c) - 48"

fun strip_prefix :: "string \<Rightarrow> string \<Rightarrow> string option" where
  "strip_prefix [] s = Some s"
| "strip_prefix (c # cs) [] = None"
| "strip_prefix (c # cs) (d # ds) = (if c = d then strip_prefix cs ds else None)"

definition unescape :: "char \<Rightarrow> char option" where
  "unescape e =
     (if e = CHR 0x22 \<or> e = CHR 0x5C \<or> e = CHR ''/'' then Some e
      else if e = CHR ''n'' then Some (CHR 0x0A)
      else if e = CHR ''t'' then Some (CHR 0x09)
      else if e = CHR ''r'' then Some (CHR 0x0D)
      else if e = CHR ''b'' then Some (CHR 0x08)
      else if e = CHR ''f'' then Some (CHR 0x0C)
      else None)"

fun parse_chars :: "string \<Rightarrow> (string \<times> string) option" where
  "parse_chars [] = None"
| "parse_chars [c] = (if c = CHR 0x22 then Some ([], []) else None)"
| "parse_chars (c # e # r) =
     (if c = CHR 0x22 then Some ([], e # r)
      else if c = CHR 0x5C then
        (case unescape e of
           None \<Rightarrow> None
         | Some x \<Rightarrow> map_option (apfst ((#) x)) (parse_chars r))
      else if (of_char c :: nat) < 32 then None
      else map_option (apfst ((#) c)) (parse_chars (e # r)))"

definition parse_number :: "string \<Rightarrow> (int \<times> string) option" where
  "parse_number s =
     (let (neg, t) = (case s of c # r \<Rightarrow> if c = CHR ''-'' then (True, r) else (False, s)
                               | [] \<Rightarrow> (False, s));
          ds = takeWhile is_digit t;
          r = dropWhile is_digit t;
          n = foldl (\<lambda>a d. 10 * a + digit_value d) 0 ds
      in if ds = [] \<or> (length ds > 1 \<and> hd ds = CHR ''0'') then None
         else if r \<noteq> [] \<and> hd r \<in> {CHR ''.'', CHR ''e'', CHR ''E''} then None
         else Some (if neg then - n else n, r))"

fun parse_value :: "nat \<Rightarrow> string \<Rightarrow> (int json \<times> string) option"
  and parse_elements :: "nat \<Rightarrow> string \<Rightarrow> int json list \<Rightarrow> (int json \<times> string) option"
  and parse_members :: "nat \<Rightarrow> string \<Rightarrow> (string \<times> int json) list \<Rightarrow> (int json \<times> string) option"
where
  "parse_value 0 s = None"
| "parse_value (Suc n) s =
     (case skip_ws s of
        [] \<Rightarrow> None
      | c # r \<Rightarrow>
          if c = CHR 0x22 then map_option (apfst JString) (parse_chars r)
          else if c = CHR ''['' then
            (case skip_ws r of
               [] \<Rightarrow> None
             | d # r' \<Rightarrow> if d = CHR '']'' then Some (JArray [], r') else parse_elements n r [])
          else if c = CHR ''{'' then
            (case skip_ws r of
               [] \<Rightarrow> None
             | d # r' \<Rightarrow> if d = CHR ''}'' then Some (JObject [], r') else parse_members n r [])
          else if c = CHR ''n'' then map_option (Pair JNull) (strip_prefix ''ull'' r)
          else if c = CHR ''t'' then map_option (Pair (JBool True)) (strip_prefix ''rue'' r)
          else if c = CHR ''f'' then map_option (Pair (JBool False)) (strip_prefix ''alse'' r)
          else map_option (apfst JNumber) (parse_number (c # r)))"
| "parse_elements 0 s acc = None"
| "parse_elements (Suc n) s acc =
     (case parse_value n s of
        None \<Rightarrow> None
      | Some (v, r) \<Rightarrow>
          (case skip_ws r of
             [] \<Rightarrow> None
           | c # r' \<Rightarrow>
               if c = CHR '','' then parse_elements n r' (acc @ [v])
               else if c = CHR '']'' then Some (JArray (acc @ [v]), r')
               else None))"
| "parse_members 0 s acc = None"
| "parse_members (Suc n) s acc =
     (case skip_ws s of
        [] \<Rightarrow> None
      | q # r \<Rightarrow>
          if q \<noteq> CHR 0x22 then None
          else
            (case parse_chars r of
               None \<Rightarrow> None
             | Some (k, r1) \<Rightarrow>
                 (case skip_ws r1 of
                    [] \<Rightarrow> None
                  | c # r2 \<Rightarrow>
                      if c \<noteq> CHR '':'' then None
                      else
                        (case parse_value n r2 of
                           None \<Rightarrow> None
                         | Some (v, r3) \<Rightarrow>
                             (case skip_ws r3 of
                                [] \<Rightarrow> None
                              | d # r4 \<Rightarrow>
                                  if d = CHR '','' then parse_members n r4 (AList.update k v acc)
                                  else if d = CHR ''}'' then Some (JObject (AList.update k v acc), r4)
                                  else None)))))"

definition sample_parse :: "string \<Rightarrow> string + int json" where
  "sample_parse s =
     (case parse_value (Suc (length s)) s of
        None \<Rightarrow> Inl ''Unexpected token or end of JSON input''
      | Some (v, r) \<Rightarrow>
          if skip_ws r = [] then Inr v else Inl ''Unexpected non-whitespace character after JSON'')"

subsection \<open>Writing JSON\<close>

text \<open>
  \<open>serialize gap level\<close> follows \<^verbatim>\<open>JSON.stringify\<close>: with \<open>gap = 0\<close> nothing is
  inserted between the tokens; otherwise every element and member starts on a line of its
  own, indented by \<open>gap\<close> spaces for each level of nesting, and a colon is followed by one
  space.
\<close>

fun show_nat :: "nat \<Rightarrow> string" where
  "show_nat n =
     (if n < 10 then [char_of (48 + n)]
      else show_nat (n div 10) @ [char_of (48 + n mod 10)])"

declare show_nat.simps [simp del]

definition show_int :: "int \<Rightarrow> string" where
  "show_int i = (if i < 0 then CHR ''-'' # show_nat (nat (- i)) else show_nat (nat i))"

definition escape :: "char \<Rightarrow> string" where
  "escape c =
     (if c = CHR 0x22 \<or> c = CHR 0x5C then [CHR 0x5C, c]
      else if c = CHR 0x0A then [CHR 0x5C, CHR ''n'']
      else if c = CHR 0x09 then [CHR 0x5C, CHR ''t'']
      else if c = CHR 0x0D then [CHR 0x5C, CHR ''r'']
      else if c = CHR 0x08 then [CHR 0x5C, CHR ''b'']
      else if c = CHR 0x0C then [CHR 0x5C, CHR ''f'']
      else [c])"

definition quote :: "string \<Rightarrow> string" where
  "quote s = CHR 0x22 # concat (map escape s) @ [CHR 0x22]"

definition indent :: "nat \<Rightarrow> string" where
  "indent n = replicate n CHR '' ''"

definition separator :: "nat \<Rightarrow> nat \<Rightarrow> string" where
  "separator gap level = (if gap = 0 then [] else CHR 0x0A # indent level)"

fun serialize :: "nat \<Rightarrow> nat \<Rightarrow> int json \<Rightarrow> string"
  and serialize_elements :: "nat \<Rightarrow> nat \<Rightarrow> int json list \<Rightarrow> string"
  and serialize_members :: "nat \<Rightarrow> nat \<Rightarrow> (string \<times> int json) list \<Rightarrow> string"
where
  "serialize gap level JNull = ''null''"
| "serialize gap level (JBool b) = (if b then ''true'' else ''false'')"
| "serialize gap level (JNumber i) = show_int i"
| "serialize gap level (JString s) = quote s"
| "serialize gap level (JArray []) = ''[]''"
| "serialize gap level (JArray (x # xs)) =
     ''['' @ separator gap (level + gap) @ serialize_elements gap (level + gap) (x # xs)
     @ separator gap level @ '']''"
| "serialize gap level (JObject []) = ''{}''"
| "serialize gap level (JObject (m # ms)) =
     ''{'' @ separator gap (level + gap) @ serialize_members gap (level + gap) (m # ms)
     @ separator gap level @ ''}''"
| "serialize_elements gap level [] = []"
| "serialize_elements gap level [x] = serialize gap level x"
| "serialize_elements gap level (x # y # xs) =
     serialize gap level x @ '','' @ separator gap level @ serialize_elements gap level (y # xs)"
| "serialize_members gap level [] = []"
| "serialize_members gap level [(k, v)] =
     quote k @ '':'' @ (if gap = 0 then [] else '' '') @ serialize gap level v"
| "serialize_members gap level ((k, v) # m # ms) =
     quote k @ '':'' @ (if gap = 0 then [] else '' '') @ serialize gap level v
     @ '','' @ separator gap level @ serialize_members gap level (m # ms)"

definition sample_stringify :: "int json \<Rightarrow> nat \<Rightarrow> string" where
  "sample_stringify v space = serialize (min space 10) 0 v"

subsection \<open>The stand-in codec\<close>

text \<open>
  Every character is written as the three digits of its code in base 8, and the stream is
  closed by the symbol \<^verbatim>\<open>Q\<close>. The decoder returns \<^verbatim>\<open>null\<close> on the empty input, as
  \<^verbatim>\<open>decompressFromBase64\<close> does, and on a stream that is not well formed; a stream
  that holds the end symbol only decodes to the empty string.
\<close>

definition octal_digit :: "bool \<Rightarrow> bool \<Rightarrow> bool \<Rightarrow> char" where
  "octal_digit k0 k1 k2 = Char k0 k1 k2 False True True False False"

fun digit_bits :: "char \<Rightarrow> (bool \<times> bool \<times> bool) option" where
  "digit_bits (Char k0 k1 k2 k3 k4 k5 k6 k7) =
     (if \<not> k3 \<and> k4 \<and> k5 \<and> \<not> k6 \<and> \<not> k7 then Some (k0, k1, k2) else None)"

fun encode_char :: "char \<Rightarrow> string" where
  "encode_char (Char b0 b1 b2 b3 b4 b5 b6 b7) =
     [octal_digit b6 b7 False, octal_digit b3 b4 b5, octal_digit b0 b1 b2]"

definition sample_encode :: "string \<Rightarrow> string" where
  "sample_encode s = concat (map encode_char s) @ ''Q''"

fun decode_symbols :: "string \<Rightarrow> string option" where
  "decode_symbols (a # b # c # r) =
     (case (digit_bits a, digit_bits b, digit_bits c) of
        (Some (x0, x1, x2), Some (y0, y1, y2), Some (z0, z1, z2)) \<Rightarrow>
          if x2 then None
          else map_option ((#) (Char z0 z1 z2 y0 y1 y2 x0 x1)) (decode_symbols r)
      | _ \<Rightarrow> None)"
| "decode_symbols [c] = (if c = CHR ''Q'' then Some [] else None)"
| "decode_symbols s = None"

definition sample_decode :: "string \<Rightarrow> string option" where
  "sample_decode s = (if s = [] then None else decode_symbols s)"

definition sample_platform :: "int platform" where
  "sample_platform =
     \<lparr>JSON_parse = sample_parse, JSON_stringify = sample_stringify,
      compressToBase64 = sample_encode, decompressFromBase64 = sample_decode,
      Worker_global = WorkerRuns, TextEncoder_length = length\<rparr>"

definition sample_document :: "int json" where
  "sample_document = JObject [(''a'', JNumber 1), (''b'', JArray [JNumber 2, JNumber 3])]"

definition sample_component :: component where
  "sample_component =
     \<lparr>dataInput = [], dataType = Unknown, isLoading = False, useWebWorker = True,
      resultData = [], resultTitle = [], statusMessage = ''Paste or drop data to begin.'',
      errorMessage = None, originalSize = 0, resultSize = 0\<rparr>"

section \<open>Notions of the specification\<close>

text \<open>
  The specification names the three classifications \<open>Structured\<close>,
  \<open>CompressedEncoding\<close> and \<open>Unrecognized\<close>; the code returns \<^verbatim>\<open>'json'\<close>,
  \<^verbatim>\<open>'compressed'\<close> and \<^verbatim>\<open>'unknown'\<close>.
\<close>

datatype classification = Structured | CompressedEncoding | Unrecognized

fun classification_of :: "data_type \<Rightarrow> classification" where
  "classification_of Json = Structured"
| "classification_of Compressed = CompressedEncoding"
| "classification_of Unknown = Unrecognized"

text \<open>A composite value is an object or an array.\<close>

fun is_composite :: "'n json \<Rightarrow> bool" where
  "is_composite (JArray xs) = True"
| "is_composite (JObject kvs) = True"
| "is_composite v = False"

definition parses :: "'n platform \<Rightarrow> string \<Rightarrow> bool" where
  "parses P s = (case JSON_parse P s of Inr v \<Rightarrow> True | Inl m \<Rightarrow> False)"

definition parses_as_composite :: "'n platform \<Rightarrow> string \<Rightarrow> bool" where
  "parses_as_composite P s = (case JSON_parse P s of Inr v \<Rightarrow> is_composite v | Inl m \<Rightarrow> False)"

text \<open>
  Trimming as the specification words it, written without reference to \<open>trim\<close>: the
  white-space characters are listed one by one, and they are taken off the front of the
  text and off its end, each by a recursion of its own.
\<close>

definition white_space :: "char list" where
  "white_space = [CHR 0x09, CHR 0x0A, CHR 0x0B, CHR 0x0C, CHR 0x0D, CHR 0x20, CHR 0xA0]"

fun strip_leading :: "string \<Rightarrow> string" where
  "strip_leading [] = []"
| "strip_leading (c # cs) = (if c \<in> set white_space then strip_leading cs else c # cs)"

fun strip_trailing :: "string \<Rightarrow> string" where
  "strip_trailing [] = []"
| "strip_trailing (c # cs) =
     (case strip_trailing cs of
        [] \<Rightarrow> if c \<in> set white_space then [] else [c]
      | d # ds \<Rightarrow> c # d # ds)"

text \<open>
  The classifier as the specification words it: trim; empty gives \<open>Unrecognized\<close>; a
  text that parses as a composite value gives \<open>Structured\<close>; otherwise a text whose
  decode is non-empty and parses gives \<open>CompressedEncoding\<close>; otherwise
  \<open>Unrecognized\<close>.
\<close>

definition classify_reference :: "'n platform \<Rightarrow> string \<Rightarrow> classification" where
  "classify_reference P input =
     (let t = strip_trailing (strip_leading input) in
      if t = [] then Unrecognized
      else if parses_as_composite P t then Structured
      else if (case decompressFromBase64 P t of
                 None \<Rightarrow> False
               | Some d \<Rightarrow> d \<noteq> [] \<and> parses P d) then CompressedEncoding
      else Unrecognized)"

text \<open>
  \<open>DecodeFailure\<close>: the request is rejected with the reason that one of the two threads
  gives when the decode step returns nothing, and no \<^verbatim>\<open>JSON.parse\<close> was called.
\<close>

fun is_parse :: "event \<Rightarrow> bool" where
  "is_parse (Parse s) = True"
| "is_parse e = False"

definition DecodeFailure :: "event list \<times> outcome \<Rightarrow> bool" where
  "DecodeFailure r \<longleftrightarrow>
     (snd r = Rejected ''Decompression returned no data or failed.''
      \<or> snd r = Rejected ''Decompression failed: Returned null/undefined.'')
     \<and> \<not> list_ex is_parse (fst r)"


text \<open>The characters of the base64 alphabet, with the padding character.\<close>

definition base64_safe :: "char \<Rightarrow> bool" where
  "base64_safe c \<longleftrightarrow>
     (let n = (of_char c :: nat)
      in (65 \<le> n \<and> n \<le> 90) \<or> (97 \<le> n \<and> n \<le> 122) \<or> (48 \<le> n \<and> n \<le> 57)
         \<or> n = 43 \<or> n = 47 \<or> n = 61)"

section \<open>Auxiliary facts\<close>

lemma trim_Nil_iff: "trim s = [] \<longleftrightarrow> (\<forall>c \<in> set s. isWhiteSpace c)"
proof
  assume "trim s = []"
  then have "dropWhile isWhiteSpace (rev (dropWhile isWhiteSpace s)) = []"
    by (simp add: trim_def)
  then have "\<forall>c \<in> set (dropWhile isWhiteSpace s). isWhiteSpace c"
    by simp
  moreover have "dropWhile isWhiteSpace s = [] \<or> \<not> isWhiteSpace (hd (dropWhile isWhiteSpace s))"
    using hd_dropWhile by blast
  ultimately have "dropWhile isWhiteSpace s = []"
    by (cases "dropWhile isWhiteSpace s") auto
  then show "\<forall>c \<in> set s. isWhiteSpace c"
    by simp
next
  assume "\<forall>c \<in> set s. isWhiteSpace c"
  then have "dropWhile isWhiteSpace s = []"
    by simp
  then show "trim s = []"
    by (simp add: trim_def del: dropWhile_eq_Nil_conv)
qed

lemma dropWhile_unchanged: "xs = [] \<or> \<not> P (hd xs) \<Longrightarrow> dropWhile P xs = xs"
  by (cases xs) auto

lemma last_dropWhile_eq: "dropWhile P xs \<noteq> [] \<Longrightarrow> last (dropWhile P xs) = last xs"
  by (induction xs) (auto simp del: dropWhile_eq_Nil_conv)

text \<open>Trimming twice is trimming once, so the classifier may be given the raw input.\<close>

lemma trim_idem: "trim (trim s) = trim s"
proof -
  define u where "u = dropWhile isWhiteSpace s"
  define w where "w = dropWhile isWhiteSpace (rev u)"
  have t: "trim s = rev w"
    by (simp add: trim_def u_def w_def)
  have "dropWhile isWhiteSpace (rev w) = rev w"
  proof (cases "w = []")
    case True
    then show ?thesis by simp
  next
    case False
    then have "last w = last (rev u)"
      unfolding w_def by (rule last_dropWhile_eq)
    moreover have "u \<noteq> []"
      using False by (auto simp add: w_def)
    ultimately have "last w = hd u"
      by (simp add: last_rev)
    moreover have "\<not> isWhiteSpace (hd u)"
      using \<open>u \<noteq> []\<close> unfolding u_def by (rule hd_dropWhile)
    ultimately have "rev w = [] \<or> \<not> isWhiteSpace (hd (rev w))"
      using False by (simp add: hd_rev)
    then show ?thesis
      by (rule dropWhile_unchanged)
  qed
  moreover have "dropWhile isWhiteSpace w = w"
    by (simp add: w_def)
  ultimately have "trim (rev w) = rev w"
    by (simp add: trim_def)
  then show ?thesis
    by (simp add: t)
qed

lemma analyzeData_trim: "analyzeData P (trim s) = analyzeData P s"
  by (simp add: analyzeData_def trim_idem)

text \<open>
  The trimming of the specification and \<open>trim\<close> agree: the listed characters are the
  ones \<open>isWhiteSpace\<close> accepts, and the two recursions strip what \<open>dropWhile\<close> strips
  from either end.
\<close>

lemma white_space_codes: "map of_char white_space = [9, 10, 11, 12, 13, 32, 160 :: nat]"
  by (simp add: white_space_def)

lemma isWhiteSpace_iff: "isWhiteSpace c \<longleftrightarrow> c \<in> set white_space"
proof -
  have "c \<in> set white_space \<longleftrightarrow> (of_char c :: nat) \<in> of_char ` set white_space"
    by (auto simp add: image_iff)
  also have "\<dots> \<longleftrightarrow> (of_char c :: nat) \<in> set (map of_char white_space)"
    by simp
  also have "\<dots> \<longleftrightarrow> isWhiteSpace c"
    by (simp only: white_space_codes) (simp add: isWhiteSpace_def)
  finally show ?thesis
    by simp
qed

lemma strip_leading_eq: "strip_leading s = dropWhile isWhiteSpace s"
  by (induction s) (simp_all add: isWhiteSpace_iff)

lemma strip_trailing_Nil: "strip_trailing s = [] \<longleftrightarrow> (\<forall>c \<in> set s. c \<in> set white_space)"
  by (induction s) (auto split: list.splits if_splits)

lemma strip_trailing_eq: "strip_trailing s = rev (dropWhile isWhiteSpace (rev s))"
proof (induction s)
  case Nil
  then show ?case by simp
next
  case (Cons c cs)
  show ?case
  proof (cases "\<forall>x \<in> set cs. isWhiteSpace x")
    case True
    then have "strip_trailing cs = []"
      by (simp add: strip_trailing_Nil isWhiteSpace_iff)
    then show ?thesis
      using True by (simp add: dropWhile_append isWhiteSpace_iff)
  next
    case False
    then have "strip_trailing cs \<noteq> []"
      by (simp add: strip_trailing_Nil isWhiteSpace_iff)
    then show ?thesis
      using False Cons.IH by (auto simp add: dropWhile_append split: list.splits)
  qed
qed

lemma strip_both_eq_trim: "strip_trailing (strip_leading s) = trim s"
  by (simp add: strip_leading_eq strip_trailing_eq trim_def)

lemma or_else_nonempty [simp]: "m \<noteq> [] \<Longrightarrow> or_else m d = m"
  by (simp add: or_else_def)

lemma or_else_fallback [simp]: "d \<noteq> [] \<Longrightarrow> or_else (or_else m d) d' = or_else m d"
  by (simp add: or_else_def)

text \<open>How the promise settles, for each action on each thread.\<close>

lemma inline_compress:
  "snd (processDataAsync P Compress d False) =
     (case JSON_parse P d of
        Inl m \<Rightarrow> Rejected (or_else m ''Synchronous processing failed.'')
      | Inr v \<Rightarrow> Resolved (compressToBase64 P (JSON_stringify P v 0)))"
  by (simp add: processDataAsync_def compressJsonSync_def Let_def split: sum.splits)

lemma inline_decompress:
  "snd (processDataAsync P Decompress d False) =
     (case decompressFromBase64 P d of
        None \<Rightarrow> Rejected ''Decompression returned no data or failed.''
      | Some js \<Rightarrow>
          (case JSON_parse P js of
             Inl m \<Rightarrow> Rejected (or_else m ''Synchronous processing failed.'')
           | Inr v \<Rightarrow> Resolved (JSON_stringify P v 2)))"
  by (simp add: processDataAsync_def decompressJsonSync_def split: option.splits sum.splits)

lemma worker_compress:
  "Worker_global P = WorkerRuns \<Longrightarrow>
   snd (processDataAsync P Compress d True) =
     (case JSON_parse P d of
        Inl m \<Rightarrow> Rejected (or_else m ''Worker processing failed.'')
      | Inr v \<Rightarrow> Resolved (compressToBase64 P (JSON_stringify P v 0)))"
  by (simp add: processDataAsync_def worker_listener_def Let_def split: sum.splits)

lemma worker_decompress:
  "Worker_global P = WorkerRuns \<Longrightarrow>
   snd (processDataAsync P Decompress d True) =
     (case decompressFromBase64 P d of
        None \<Rightarrow> Rejected ''Decompression failed: Returned null/undefined.''
      | Some js \<Rightarrow>
          (case JSON_parse P js of
             Inl m \<Rightarrow> Rejected (or_else m ''Worker processing failed.'')
           | Inr v \<Rightarrow> Resolved (JSON_stringify P v 2)))"
  by (simp add: processDataAsync_def worker_listener_def Let_def split: option.splits sum.splits)

text \<open>The calls a decompress request makes.\<close>

lemma inline_decompress_calls:
  "fst (processDataAsync P Decompress d False) =
     (case decompressFromBase64 P d of
        None \<Rightarrow> [SetTimeout, Decode d]
      | Some js \<Rightarrow>
          (case JSON_parse P js of
             Inl m \<Rightarrow> [SetTimeout, Decode d, Parse js]
           | Inr v \<Rightarrow> [SetTimeout, Decode d, Parse js, Stringify 2]))"
  by (simp add: processDataAsync_def decompressJsonSync_def split: option.splits sum.splits)

lemma worker_decompress_calls:
  "Worker_global P = WorkerRuns \<Longrightarrow>
   fst (processDataAsync P Decompress d True) =
     (case decompressFromBase64 P d of
        None \<Rightarrow> [NewWorker, PostToWorker ''decompress'' d, Decode d, PostToMain, Terminate]
      | Some js \<Rightarrow>
          (case JSON_parse P js of
             Inl m \<Rightarrow> [NewWorker, PostToWorker ''decompress'' d, Decode d, Parse js,
                        PostToMain, Terminate]
           | Inr v \<Rightarrow> [NewWorker, PostToWorker ''decompress'' d, Decode d, Parse js,
                        Stringify 2, PostToMain, Terminate]))"
  by (simp add: processDataAsync_def worker_listener_def Let_def split: option.splits sum.splits)

text \<open>A delegated request resolves only when the worker runs.\<close>

lemma delegated_resolved_runs:
  "snd (processDataAsync P a d True) = Resolved r \<Longrightarrow> Worker_global P = WorkerRuns"
  by (cases "Worker_global P") (simp_all add: processDataAsync_def)

text \<open>What the two handlers of the component keep and what \<^verbatim>\<open>handleAction\<close> shows.\<close>

lemma analyzeInput_keeps:
  "dataInput (analyzeInput P c) = dataInput c"
  "useWebWorker (analyzeInput P c) = useWebWorker c"
  "dataType (analyzeInput P c) = analyzeData P (dataInput c)"
  by (simp_all add: analyzeInput_def Let_def analyzeData_trim)





lemma composite_typeof: "is_composite v \<longleftrightarrow> typeof v = ''object'' \<and> v \<noteq> JNull"
  by (cases v) simp_all

text \<open>Facts about the sample platform.\<close>

lemma sample_worker_runs: "Worker_global sample_platform = WorkerRuns"
  by (simp add: sample_platform_def)

lemma octal_digit_base64_safe: "base64_safe (octal_digit k0 k1 k2)"
  by (cases k0; cases k1; cases k2) (simp_all add: base64_safe_def octal_digit_def)

lemma encode_char_base64_safe: "list_all base64_safe (encode_char c)"
  by (cases c) (simp add: octal_digit_base64_safe)

lemma sample_encode_base64_safe: "list_all base64_safe (sample_encode s)"
proof -
  have "list_all base64_safe (concat (map encode_char s))"
    by (induction s) (simp_all add: encode_char_base64_safe)
  moreover have "base64_safe CHR ''Q''"
    by (simp add: base64_safe_def)
  ultimately show ?thesis
    by (simp add: sample_encode_def)
qed

section \<open>The claims\<close>

text \<open>
  C1 (round trip). Let \<open>d\<close> be a serialization of the value \<open>v\<close>, in any formatting.
  Compressing \<open>d\<close> resolves to an encoded string \<open>c\<close>, decompressing \<open>c\<close> resolves to a
  text \<open>t\<close>, and \<open>t\<close> parses back to \<open>v\<close>, on whichever thread each of the two requests
  runs. The hypotheses are the contracts of the host: the writer's compact and indented
  texts of \<open>v\<close> read back as \<open>v\<close>, and the decoder inverts the encoder on the compact text.
  Composite values are a special case: nothing in the two transforms looks at the shape of
  \<open>v\<close>.
\<close>

theorem compress_decompress_round_trip:
  assumes serialization: "JSON_parse P d = Inr v"
    and compact: "JSON_parse P (JSON_stringify P v 0) = Inr v"
    and indented: "JSON_parse P (JSON_stringify P v 2) = Inr v"
    and codec: "decompressFromBase64 P (compressToBase64 P (JSON_stringify P v 0))
                  = Some (JSON_stringify P v 0)"
    and worker: "m1 \<or> m2 \<Longrightarrow> Worker_global P = WorkerRuns"
  shows "\<exists>c t. snd (processDataAsync P Compress d m1) = Resolved c
               \<and> snd (processDataAsync P Decompress c m2) = Resolved t
               \<and> JSON_parse P t = Inr v"
proof -
  let ?c = "compressToBase64 P (JSON_stringify P v 0)"
  have "snd (processDataAsync P Compress d m1) = Resolved ?c"
    using serialization worker by (cases m1) (simp_all add: inline_compress worker_compress)
  moreover have "snd (processDataAsync P Decompress ?c m2) = Resolved (JSON_stringify P v 2)"
    using codec compact worker by (cases m2) (simp_all add: inline_decompress worker_decompress)
  ultimately show ?thesis
    using indented by blast
qed

theorem compress_decompress_round_trip_witness:
  \<open>JSON_parse sample_platform '' { "a" : 1, "b": [2, 3] } '' = Inr sample_document
   \<and> is_composite sample_document
   \<and> (\<exists>c t. snd (processDataAsync sample_platform Compress
                  '' { "a" : 1, "b": [2, 3] } '' False) = Resolved c
            \<and> snd (processDataAsync sample_platform Decompress c True) = Resolved t
            \<and> JSON_parse sample_platform t = Inr sample_document)\<close>
proof -
  have serialization:
    \<open>JSON_parse sample_platform '' { "a" : 1, "b": [2, 3] } '' = Inr sample_document\<close>
    by code_simp
  have compact: "JSON_parse sample_platform (JSON_stringify sample_platform sample_document 0)
      = Inr sample_document"
    by code_simp
  have indented: "JSON_parse sample_platform (JSON_stringify sample_platform sample_document 2)
      = Inr sample_document"
    by code_simp
  have codec: "decompressFromBase64 sample_platform
        (compressToBase64 sample_platform (JSON_stringify sample_platform sample_document 0))
      = Some (JSON_stringify sample_platform sample_document 0)"
    by code_simp
  have composite: "is_composite sample_document"
    by (simp add: sample_document_def)
  show ?thesis
    using compress_decompress_round_trip
      [OF serialization compact indented codec sample_worker_runs, of False True]
      serialization composite
    by simp
qed

text \<open>
  C2 (mode equivalence), as the claim states it, fails: when the decode step returns
  \<^verbatim>\<open>null\<close>, as it does on the empty payload, the main thread and the worker throw
  errors with different messages, and the two requests are rejected with different
  reasons although the worker is available.
\<close>

theorem mode_equivalence_counterexample:
  "Worker_global sample_platform = WorkerRuns
   \<and> snd (processDataAsync sample_platform Decompress [] False)
       = Rejected ''Decompression returned no data or failed.''
   \<and> snd (processDataAsync sample_platform Decompress [] True)
       = Rejected ''Decompression failed: Returned null/undefined.''
   \<and> snd (processDataAsync sample_platform Decompress [] False)
       \<noteq> snd (processDataAsync sample_platform Decompress [] True)"
proof -
  have "decompressFromBase64 sample_platform [] = None"
    by (simp add: sample_platform_def sample_decode_def)
  then show ?thesis
    by (simp add: inline_decompress worker_decompress sample_worker_runs)
qed

text \<open>
  C2, amended. With the worker available, the two modes agree on success and on the
  result text: one resolves with \<open>r\<close> exactly when the other does. They are rejected with
  the same reason whenever the failure is a syntax error of \<^verbatim>\<open>JSON.parse\<close> whose message
  is not empty. When the decode step returns \<^verbatim>\<open>null\<close> each mode rejects with a text of
  its own.
\<close>

theorem mode_equivalence_amended:
  assumes "Worker_global P = WorkerRuns"
  shows "(\<forall>r. snd (processDataAsync P act d False) = Resolved r
              \<longleftrightarrow> snd (processDataAsync P act d True) = Resolved r)
         \<and> (act = Compress \<and> JSON_parse P d \<noteq> Inl []
              \<longrightarrow> snd (processDataAsync P act d False) = snd (processDataAsync P act d True))
         \<and> (\<forall>js. act = Decompress \<and> decompressFromBase64 P d = Some js
                \<and> JSON_parse P js \<noteq> Inl []
              \<longrightarrow> snd (processDataAsync P act d False) = snd (processDataAsync P act d True))
         \<and> (act = Decompress \<and> decompressFromBase64 P d = None
              \<longrightarrow> snd (processDataAsync P act d False)
                    = Rejected ''Decompression returned no data or failed.''
                  \<and> snd (processDataAsync P act d True)
                    = Rejected ''Decompression failed: Returned null/undefined.'')"
proof (cases act)
  case Compress
  then show ?thesis
    using assms
    by (auto simp add: inline_compress worker_compress or_else_def split: sum.splits)
next
  case Decompress
  then show ?thesis
    using assms
    by (auto simp add: inline_decompress worker_decompress or_else_def
        split: sum.splits option.splits)
qed

theorem mode_equivalence_amended_witness:
  \<open>Worker_global sample_platform = WorkerRuns
   \<and> snd (processDataAsync sample_platform Compress ''{"a":1,"b":[2,3]}'' False)
       = Resolved ''173042141042072061054042142042072133062054063135175Q''
   \<and> snd (processDataAsync sample_platform Compress ''{"a":1,"b":[2,3]}'' True)
       = Resolved ''173042141042072061054042142042072133062054063135175Q''
   \<and> JSON_parse sample_platform ''{"a":'' \<noteq> Inl []
   \<and> snd (processDataAsync sample_platform Compress ''{"a":'' False)
       = snd (processDataAsync sample_platform Compress ''{"a":'' True)\<close>
proof -
  have r: \<open>snd (processDataAsync sample_platform Compress ''{"a":1,"b":[2,3]}'' False)
       = Resolved ''173042141042072061054042142042072133062054063135175Q''\<close>
    by code_simp
  have m: \<open>JSON_parse sample_platform ''{"a":'' \<noteq> Inl []\<close>
    by code_simp
  have \<open>snd (processDataAsync sample_platform Compress ''{"a":1,"b":[2,3]}'' True)
       = Resolved ''173042141042072061054042142042072133062054063135175Q''\<close>
    using mode_equivalence_amended [OF sample_worker_runs, of Compress \<open>''{"a":1,"b":[2,3]}''\<close>] r
    by blast
  moreover have \<open>snd (processDataAsync sample_platform Compress ''{"a":'' False)
       = snd (processDataAsync sample_platform Compress ''{"a":'' True)\<close>
    using mode_equivalence_amended [OF sample_worker_runs, of Compress \<open>''{"a":''\<close>] m
    by blast
  ultimately show ?thesis
    using r m sample_worker_runs by simp
qed

text \<open>
  C3 (classifier). \<^verbatim>\<open>analyzeData\<close> computes, on every platform and every input, the
  classification that the reference definition gives, with the two probes in the order
  the claim states. The reference trims by its own definition, so the equation also says
  that the \<^verbatim>\<open>trim\<close> of the code strips exactly the listed white space from both ends,
  the no-break space included.
\<close>

theorem analyzeData_refines_reference:
  "classification_of (analyzeData P input) = classify_reference P input"
  by (simp add: analyzeData_def classify_reference_def parses_def parses_as_composite_def
      composite_typeof strip_both_eq_trim Let_def split: sum.splits option.splits)

theorem analyzeData_refines_reference_witness:
  \<open>classification_of (analyzeData sample_platform ''  {"a":1,"b":[2,3]} '') = Structured
   \<and> classify_reference sample_platform ''  {"a":1,"b":[2,3]} '' = Structured
   \<and> classification_of (analyzeData sample_platform [CHR 0xA0, CHR ''['', CHR ''1'', CHR '']'',
        CHR 0xA0]) = Structured
   \<and> classification_of (analyzeData sample_platform [CHR 0xA0, CHR 0x09]) = Unrecognized
   \<and> classification_of (analyzeData sample_platform ''42'') = Unrecognized
   \<and> classification_of (analyzeData sample_platform ''"hello"'') = Unrecognized
   \<and> classification_of (analyzeData sample_platform
        ''173042141042072061054042142042072133062054063135175Q'') = CompressedEncoding
   \<and> classification_of (analyzeData sample_platform ''Q'') = Unrecognized\<close>
proof -
  have \<open>classify_reference sample_platform ''  {"a":1,"b":[2,3]} '' = Structured\<close>
    by code_simp
  moreover have "classify_reference sample_platform [CHR 0xA0, CHR ''['', CHR ''1'', CHR '']'',
      CHR 0xA0] = Structured"
    by code_simp
  moreover have "classify_reference sample_platform [CHR 0xA0, CHR 0x09] = Unrecognized"
    by code_simp
  moreover have "classify_reference sample_platform ''42'' = Unrecognized"
    by code_simp
  moreover have \<open>classify_reference sample_platform ''"hello"'' = Unrecognized\<close>
    by code_simp
  moreover have "classify_reference sample_platform
      ''173042141042072061054042142042072133062054063135175Q'' = CompressedEncoding"
    by code_simp
  moreover have "classify_reference sample_platform ''Q'' = Unrecognized"
    by code_simp
  ultimately show ?thesis
    by (simp add: analyzeData_refines_reference)
qed

text \<open>
  C4 (decode failure), as the claim states it, fails for the empty decode: the guard of
  the decompress branch tests \<^verbatim>\<open>null\<close> and \<^verbatim>\<open>undefined\<close> only, so an input whose
  decode is the empty string reaches \<^verbatim>\<open>JSON.parse\<close>, on either thread, and the request
  is rejected with the parser's reason.
\<close>

theorem decode_failure_counterexample:
  "decompressFromBase64 sample_platform ''Q'' = Some []
   \<and> \<not> DecodeFailure (processDataAsync sample_platform Decompress ''Q'' False)
   \<and> \<not> DecodeFailure (processDataAsync sample_platform Decompress ''Q'' True)
   \<and> processDataAsync sample_platform Decompress ''Q'' False
       = ([SetTimeout, Decode ''Q'', Parse []], Rejected ''Unexpected token or end of JSON input'')"
  by code_simp

text \<open>
  C4, amended. For every input whose decode yields \<^verbatim>\<open>null\<close>, decompress fails with the
  decode failure, before any parse, in both modes. When the decode yields the empty
  string, the empty text is handed to \<^verbatim>\<open>JSON.parse\<close> and the request settles as that
  call does.
\<close>

theorem decode_failure_amended:
  "(decompressFromBase64 P d = None \<longrightarrow>
      DecodeFailure (processDataAsync P Decompress d False)
      \<and> (Worker_global P = WorkerRuns \<longrightarrow> DecodeFailure (processDataAsync P Decompress d True)))
   \<and> (decompressFromBase64 P d = Some [] \<longrightarrow>
        list_ex is_parse (fst (processDataAsync P Decompress d False))
        \<and> snd (processDataAsync P Decompress d False)
            = (case JSON_parse P [] of
                 Inl m \<Rightarrow> Rejected (or_else m ''Synchronous processing failed.'')
               | Inr v \<Rightarrow> Resolved (JSON_stringify P v 2))
        \<and> (Worker_global P = WorkerRuns \<longrightarrow>
             list_ex is_parse (fst (processDataAsync P Decompress d True))
             \<and> snd (processDataAsync P Decompress d True)
                 = (case JSON_parse P [] of
                      Inl m \<Rightarrow> Rejected (or_else m ''Worker processing failed.'')
                    | Inr v \<Rightarrow> Resolved (JSON_stringify P v 2))))"
  by (simp add: DecodeFailure_def inline_decompress worker_decompress
      inline_decompress_calls worker_decompress_calls split: sum.splits)

theorem decode_failure_amended_witness:
  "decompressFromBase64 sample_platform ''hello'' = None
   \<and> DecodeFailure (processDataAsync sample_platform Decompress ''hello'' False)
   \<and> DecodeFailure (processDataAsync sample_platform Decompress ''hello'' True)
   \<and> decompressFromBase64 sample_platform ''Q'' = Some []
   \<and> snd (processDataAsync sample_platform Decompress ''Q'' True)
       = Rejected ''Unexpected token or end of JSON input''"
proof -
  have n: "decompressFromBase64 sample_platform ''hello'' = None"
    by code_simp
  have e: "decompressFromBase64 sample_platform ''Q'' = Some []"
    by code_simp
  have p: "JSON_parse sample_platform [] = Inl ''Unexpected token or end of JSON input''"
    by code_simp
  show ?thesis
    using decode_failure_amended [of sample_platform "''hello''"]
      decode_failure_amended [of sample_platform "''Q''"] n e p sample_worker_runs
    by simp
qed

text \<open>
  C5 (no worker facility). When delegated mode is requested and \<^verbatim>\<open>Worker\<close> is undefined,
  the dispatcher rejects with the reason that the environment does not support workers,
  and it makes no call at all: no parse, stringify, encode or decode, on any thread.
\<close>

theorem no_worker_no_fallback:
  assumes "Worker_global P = WorkerUndefined"
  shows "processDataAsync P act d True
           = ([], Rejected ''Web Workers are not supported in this environment.'')
         \<and> \<not> list_ex is_transform_call (fst (processDataAsync P act d True))"
  using assms by (simp add: processDataAsync_def)

theorem no_worker_no_fallback_witness:
  \<open>Worker_global (sample_platform\<lparr>Worker_global := WorkerUndefined\<rparr>) = WorkerUndefined
   \<and> processDataAsync (sample_platform\<lparr>Worker_global := WorkerUndefined\<rparr>) Compress
        ''{"a":1,"b":[2,3]}'' True
       = ([], Rejected ''Web Workers are not supported in this environment.'')
   \<and> snd (processDataAsync (sample_platform\<lparr>Worker_global := WorkerUndefined\<rparr>) Compress
        ''{"a":1,"b":[2,3]}'' False)
       = Resolved ''173042141042072061054042142042072133062054063135175Q''\<close>
proof -
  have h: "Worker_global (sample_platform\<lparr>Worker_global := WorkerUndefined\<rparr>) = WorkerUndefined"
    by simp
  have \<open>snd (processDataAsync (sample_platform\<lparr>Worker_global := WorkerUndefined\<rparr>) Compress
        ''{"a":1,"b":[2,3]}'' False)
       = Resolved ''173042141042072061054042142042072133062054063135175Q''\<close>
    by code_simp
  then show ?thesis
    using h no_worker_no_fallback [OF h, of Compress \<open>''{"a":1,"b":[2,3]}''\<close>] by simp
qed



text \<open>
  C7 (blank input). When the input is empty or holds white space only, \<^verbatim>\<open>handleAction\<close>
  sets the error message to the text of the empty-input failure, changes nothing else and
  makes no call: the dispatcher is not called, no worker is created and no transform
  runs. White space is what \<^verbatim>\<open>trim\<close> strips: TAB, LF, VT, FF, CR, SPACE and the
  no-break space.
\<close>

theorem blank_input_rejected:
  assumes "\<forall>c \<in> set (dataInput s). isWhiteSpace c"
  shows "handleAction P duration s = ([], s\<lparr>errorMessage := Some ''Input cannot be empty.''\<rparr>)"
proof -
  have "trim (dataInput s) = []"
    using assms by (simp only: trim_Nil_iff)
  then show ?thesis
    by (simp add: handleAction_def)
qed

theorem blank_input_rejected_witness:
  "list_all isWhiteSpace
     (dataInput (sample_component\<lparr>dataInput := [CHR 0xA0, CHR '' '', CHR 0x09, CHR 0x0A]\<rparr>))
   \<and> handleAction sample_platform ''0.10''
        (sample_component\<lparr>dataInput := [CHR 0xA0, CHR '' '', CHR 0x09, CHR 0x0A]\<rparr>)
       = ([], sample_component\<lparr>dataInput := [CHR 0xA0, CHR '' '', CHR 0x09, CHR 0x0A],
                               errorMessage := Some ''Input cannot be empty.''\<rparr>)
   \<and> handleAction sample_platform ''0.10'' (sample_component\<lparr>dataInput := []\<rparr>)
       = ([], sample_component\<lparr>dataInput := [],
                               errorMessage := Some ''Input cannot be empty.''\<rparr>)"
proof -
  have h: "\<forall>c \<in> set (dataInput
      (sample_component\<lparr>dataInput := [CHR 0xA0, CHR '' '', CHR 0x09, CHR 0x0A]\<rparr>)). isWhiteSpace c"
    by (simp add: isWhiteSpace_def)
  have e: "\<forall>c \<in> set (dataInput (sample_component\<lparr>dataInput := []\<rparr>)). isWhiteSpace c"
    by simp
  show ?thesis
    using h blank_input_rejected [OF h, of sample_platform "''0.10''"]
      blank_input_rejected [OF e, of sample_platform "''0.10''"]
    by (simp add: isWhiteSpace_def)
qed

text \<open>
  C8 (serialization forms). In either mode, a compress request that resolves returns the
  encoder's output for the text that \<^verbatim>\<open>JSON.stringify\<close>, called without \<^verbatim>\<open>space\<close>,
  writes for the parsed value; the result is made of base64 characters whenever the
  encoder's outputs are. A decompress request that resolves returns the text that
  \<^verbatim>\<open>JSON.stringify\<close>, called with \<^verbatim>\<open>space\<close> 2, writes for the value parsed from the
  decoded text.
\<close>

theorem serialization_forms:
  "(snd (processDataAsync P Compress d m) = Resolved r \<longrightarrow>
      (\<exists>v. JSON_parse P d = Inr v \<and> r = compressToBase64 P (JSON_stringify P v 0))
      \<and> ((\<forall>s. list_all base64_safe (compressToBase64 P s)) \<longrightarrow> list_all base64_safe r))
   \<and> (snd (processDataAsync P Decompress d m) = Resolved r \<longrightarrow>
        (\<exists>js v. decompressFromBase64 P d = Some js \<and> JSON_parse P js = Inr v
               \<and> r = JSON_stringify P v 2))"
proof (cases m)
  case False
  then show ?thesis
    by (auto simp add: inline_compress inline_decompress split: sum.splits option.splits)
next
  case True
  show ?thesis
  proof (cases "Worker_global P = WorkerRuns")
    case runs: True
    then show ?thesis
      using True
      by (auto simp add: worker_compress worker_decompress split: sum.splits option.splits)
  next
    case False
    have "snd (processDataAsync P a d True) \<noteq> Resolved r" for a
      using False delegated_resolved_runs [of P a d r] by blast
    then show ?thesis
      using True by simp
  qed
qed

theorem serialization_forms_witness:
  \<open>snd (processDataAsync sample_platform Compress '' { "a" : 1, "b": [2, 3] } '' True)
     = Resolved ''173042141042072061054042142042072133062054063135175Q''
   \<and> JSON_parse sample_platform '' { "a" : 1, "b": [2, 3] } '' = Inr sample_document
   \<and> JSON_stringify sample_platform sample_document 0 = ''{"a":1,"b":[2,3]}''
   \<and> list_all base64_safe ''173042141042072061054042142042072133062054063135175Q''
   \<and> snd (processDataAsync sample_platform Decompress
        ''173042141042072061054042142042072133062054063135175Q'' False)
     = Resolved ''{\<newline>  "a": 1,\<newline>  "b": [\<newline>    2,\<newline>    3\<newline>  ]\<newline>}''\<close>
proof -
  have c: \<open>snd (processDataAsync sample_platform Compress '' { "a" : 1, "b": [2, 3] } '' True)
     = Resolved ''173042141042072061054042142042072133062054063135175Q''\<close>
    by code_simp
  have p: \<open>JSON_parse sample_platform '' { "a" : 1, "b": [2, 3] } '' = Inr sample_document\<close>
    by code_simp
  have w: \<open>JSON_stringify sample_platform sample_document 0 = ''{"a":1,"b":[2,3]}''\<close>
    by code_simp
  have d: \<open>snd (processDataAsync sample_platform Decompress
        ''173042141042072061054042142042072133062054063135175Q'' False)
     = Resolved ''{\<newline>  "a": 1,\<newline>  "b": [\<newline>    2,\<newline>    3\<newline>  ]\<newline>}''\<close>
    by code_simp
  have "\<forall>s. list_all base64_safe (compressToBase64 sample_platform s)"
    by (simp add: sample_platform_def sample_encode_base64_safe)
  then have "list_all base64_safe ''173042141042072061054042142042072133062054063135175Q''"
    using serialization_forms [of sample_platform \<open>'' { "a" : 1, "b": [2, 3] } ''\<close> True
        "''173042141042072061054042142042072133062054063135175Q''"] c
    by blast
  then show ?thesis
    using c p w d by simp
qed

text \<open>
  C9 (compress takes any JSON value). Whenever the input text parses, as a composite value
  or as a scalar, a compress request resolves with the encoded compact text, on the main
  thread and, when the worker runs, on the worker. The classifier's rule for composite
  values plays no part in it.
\<close>

theorem compress_accepts_any_json:
  assumes "JSON_parse P d = Inr v"
  shows "snd (processDataAsync P Compress d False)
           = Resolved (compressToBase64 P (JSON_stringify P v 0))
         \<and> (Worker_global P = WorkerRuns \<longrightarrow>
              snd (processDataAsync P Compress d True)
                = Resolved (compressToBase64 P (JSON_stringify P v 0)))"
  using assms by (simp add: inline_compress worker_compress)

theorem compress_accepts_any_json_witness:
  "JSON_parse sample_platform ''42'' = Inr (JNumber 42)
   \<and> analyzeData sample_platform ''42'' = Unknown
   \<and> snd (processDataAsync sample_platform Compress ''42'' False) = Resolved ''064062Q''
   \<and> snd (processDataAsync sample_platform Compress ''42'' True) = Resolved ''064062Q''"
proof -
  have h: "JSON_parse sample_platform ''42'' = Inr (JNumber 42)"
    by code_simp
  have u: "analyzeData sample_platform ''42'' = Unknown"
    by code_simp
  have e: "compressToBase64 sample_platform (JSON_stringify sample_platform (JNumber 42) 0)
      = ''064062Q''"
    by code_simp
  show ?thesis
    using compress_accepts_any_json [OF h] h u e sample_worker_runs by simp
qed

text \<open>
  C10 (action selection). Take any input that is not empty once trimmed, that is, any
  input other than the empty and white-space-only inputs of C7. \<^verbatim>\<open>handleAction\<close> calls
  the dispatcher with the untrimmed input and the chosen mode, with the action
  \<^verbatim>\<open>compress\<close> when the stored classification is \<^verbatim>\<open>'json'\<close> and \<^verbatim>\<open>decompress\<close>
  in every other case, \<^verbatim>\<open>'unknown'\<close> included. The handler ends in its failure state,
  with the result and its title cleared, exactly when that request is rejected, and it
  shows the resolved text otherwise; the empty-input failure is never reported. The
  stored classification is the one \<^verbatim>\<open>analyzeInput\<close> computed: on a component that has
  analysed its input, the action is \<^verbatim>\<open>compress\<close> exactly when the input classifies as
  \<open>Structured\<close>.
\<close>

theorem action_selected_by_classification:
  assumes "trim (dataInput s) \<noteq> []"
  shows "fst (handleAction P duration s)
           = ProcessData (if dataType s = Json then Compress else Decompress)
               (dataInput s) (useWebWorker s)
             # fst (processDataAsync P (if dataType s = Json then Compress else Decompress)
                      (dataInput s) (useWebWorker s))
         \<and> resultData (snd (handleAction P duration s))
           = (case snd (processDataAsync P (if dataType s = Json then Compress else Decompress)
                          (dataInput s) (useWebWorker s)) of
                Resolved r \<Rightarrow> r
              | Rejected e \<Rightarrow> [])
         \<and> (resultTitle (snd (handleAction P duration s)) = []
              \<longleftrightarrow> (\<exists>e. snd (processDataAsync P
                              (if dataType s = Json then Compress else Decompress)
                              (dataInput s) (useWebWorker s)) = Rejected e))
         \<and> errorMessage (snd (handleAction P duration s)) \<noteq> Some ''Input cannot be empty.''
         \<and> fst (handleAction P duration (analyzeInput P s))
           = ProcessData
               (if classification_of (analyzeData P (dataInput s)) = Structured then Compress
                else Decompress)
               (dataInput s) (useWebWorker s)
             # fst (processDataAsync P
                      (if classification_of (analyzeData P (dataInput s)) = Structured then Compress
                       else Decompress)
                      (dataInput s) (useWebWorker s))"
proof -
  have stored: "fst (handleAction P duration c)
      = ProcessData (if dataType c = Json then Compress else Decompress)
          (dataInput c) (useWebWorker c)
        # fst (processDataAsync P (if dataType c = Json then Compress else Decompress)
                 (dataInput c) (useWebWorker c))"
    if "trim (dataInput c) \<noteq> []" for c
    using that
    by (simp add: handleAction_def resetError_def resetOutput_def Let_def
        split: prod.splits outcome.splits)
  have structured: "classification_of t = Structured \<longleftrightarrow> t = Json" for t
    by (cases t) simp_all
  have "resultData (snd (handleAction P duration s))
      = (case snd (processDataAsync P (if dataType s = Json then Compress else Decompress)
                     (dataInput s) (useWebWorker s)) of
           Resolved r \<Rightarrow> r
         | Rejected e \<Rightarrow> [])"
    using assms
    by (simp add: handleAction_def resetError_def resetOutput_def Let_def
        split: prod.splits outcome.splits)
  moreover have "resultTitle (snd (handleAction P duration s)) = []
      \<longleftrightarrow> (\<exists>e. snd (processDataAsync P (if dataType s = Json then Compress else Decompress)
                      (dataInput s) (useWebWorker s)) = Rejected e)"
    using assms
    by (simp add: handleAction_def resetError_def resetOutput_def Let_def
        split: prod.splits outcome.splits)
  moreover have "errorMessage (snd (handleAction P duration s)) \<noteq> Some ''Input cannot be empty.''"
    using assms
    by (simp add: handleAction_def resetError_def resetOutput_def Let_def
        split: prod.splits outcome.splits)
  moreover have "fst (handleAction P duration (analyzeInput P s))
      = ProcessData
          (if classification_of (analyzeData P (dataInput s)) = Structured then Compress
           else Decompress)
          (dataInput s) (useWebWorker s)
        # fst (processDataAsync P
                 (if classification_of (analyzeData P (dataInput s)) = Structured then Compress
                  else Decompress)
                 (dataInput s) (useWebWorker s))"
    using stored [of "analyzeInput P s"] assms by (simp add: analyzeInput_keeps structured)
  ultimately show ?thesis
    using stored [OF assms] by simp
qed

theorem action_selected_by_classification_witness:
  "trim (dataInput (sample_component\<lparr>dataInput := ''hello''\<rparr>)) \<noteq> []
   \<and> classification_of (analyzeData sample_platform ''hello'') = Unrecognized
   \<and> fst (handleAction sample_platform ''0.10''
        (analyzeInput sample_platform (sample_component\<lparr>dataInput := ''hello''\<rparr>)))
       = [ProcessData Decompress ''hello'' True, NewWorker, PostToWorker ''decompress'' ''hello'',
          Decode ''hello'', PostToMain, Terminate]
   \<and> snd (processDataAsync sample_platform Decompress ''hello'' True)
       = Rejected ''Decompression failed: Returned null/undefined.''
   \<and> resultData (snd (handleAction sample_platform ''0.10''
        (sample_component\<lparr>dataInput := ''hello''\<rparr>))) = []
   \<and> resultTitle (snd (handleAction sample_platform ''0.10''
        (sample_component\<lparr>dataInput := ''hello''\<rparr>))) = []"
proof -
  have h: "trim (dataInput (sample_component\<lparr>dataInput := ''hello''\<rparr>)) \<noteq> []"
    by code_simp
  have a: "analyzeData sample_platform ''hello'' = Unknown"
    by code_simp
  have t: "dataType (sample_component\<lparr>dataInput := ''hello''\<rparr>) = Unknown"
    "useWebWorker (sample_component\<lparr>dataInput := ''hello''\<rparr>) = True"
    "dataInput (sample_component\<lparr>dataInput := ''hello''\<rparr>) = ''hello''"
    by (simp_all add: sample_component_def)
  have p: "processDataAsync sample_platform Decompress ''hello'' True
      = ([NewWorker, PostToWorker ''decompress'' ''hello'', Decode ''hello'', PostToMain, Terminate],
         Rejected ''Decompression failed: Returned null/undefined.'')"
    by code_simp
  show ?thesis
    using action_selected_by_classification [OF h, of sample_platform "''0.10''"] h
    by (simp add: t p a)
qed

end
